theory Spec2Isabelle
  imports Main "HOL-Library.Word"
begin

section \<open>The DNS front end of GRDNS (main.go)\<close>

text \<open>
  The program is one Go file: a handler \<^verbatim>\<open>handleDNSRequest\<close> that turns an inbound DNS
  message into a reply with the help of a resolver, and the lifecycle functions
  \<^verbatim>\<open>Start\<close> and \<^verbatim>\<open>Stop\<close> of the two listeners. The handler works on messages of the
  library \<^verbatim>\<open>github.com/miekg/dns\<close>; the part of that library the handler touches (the
  message structure, \<^verbatim>\<open>SetReply\<close>, \<^verbatim>\<open>SetRcode\<close>, the response codes) is embedded
  first, then the handler, then the lifecycle.
\<close>

subsection \<open>Messages of the library\<close>

text \<open>
  \<^verbatim>\<open>type Question struct { Name string; Qtype uint16; Qclass uint16 }\<close>
\<close>

record Question =
  Name :: string
  Qtype :: "16 word"
  Qclass :: "16 word"

text \<open>
  \<^verbatim>\<open>type MsgHdr struct { Id uint16; Response bool; Opcode int; Authoritative bool;
  Truncated bool; RecursionDesired bool; RecursionAvailable bool; Zero bool;
  AuthenticatedData bool; CheckingDisabled bool; Rcode int }\<close>.
  The field \<^verbatim>\<open>Id\<close> is written \<open>Id_hdr\<close>, since \<open>Id\<close> is the identity relation of HOL.
\<close>

record MsgHdr =
  Id_hdr :: "16 word"
  Response :: bool
  Opcode :: int
  Authoritative :: bool
  Truncated :: bool
  RecursionDesired :: bool
  RecursionAvailable :: bool
  Zero :: bool
  AuthenticatedData :: bool
  CheckingDisabled :: bool
  Rcode :: int

text \<open>
  \<^verbatim>\<open>type Msg struct { MsgHdr; Compress bool; Question []Question; Answer []RR;
  Ns []RR; Extra []RR }\<close>. Go embeds the header, so that its fields are fields of the
  message; the record extension does the same. \<^verbatim>\<open>RR\<close> is an interface of the library:
  the resource records are values of a type parameter \<open>'rr\<close>, which the handler only
  copies. A slice is a list; Go's nil slice and its empty slice both have length 0 and
  are both the list \<open>[]\<close>.
\<close>

record 'rr Msg = MsgHdr +
  Compress :: bool
  Question :: "Question list"
  Answer :: "'rr list"
  Ns :: "'rr list"
  Extra :: "'rr list"

text \<open>\<^verbatim>\<open>new(dns.Msg)\<close>: every field has its zero value.\<close>

definition new_Msg :: "'rr Msg" where
  "new_Msg =
     \<lparr>Id_hdr = 0, Response = False, Opcode = 0, Authoritative = False, Truncated = False,
      RecursionDesired = False, RecursionAvailable = False, Zero = False,
      AuthenticatedData = False, CheckingDisabled = False, Rcode = 0,
      Compress = False, Question = [], Answer = [], Ns = [], Extra = []\<rparr>"

text \<open>The library's constants the handler names (types.go, the values of RFC 1035).\<close>

definition OpcodeQuery :: int where "OpcodeQuery = 0"
definition RcodeSuccess :: int where "RcodeSuccess = 0"
definition RcodeFormatError :: int where "RcodeFormatError = 1"
definition RcodeServerFailure :: int where "RcodeServerFailure = 2"
definition RcodeNameError :: int where "RcodeNameError = 3"

text \<open>
  Modelled from the spec: the constant \<^verbatim>\<open>dns.RcodeServFail\<close> that line 69 of main.go
  names is declared nowhere under src/; the spec's table of response codes gives
  ServerFailure for a failed security validation, so it is that code.
\<close>

definition RcodeServFail :: int where "RcodeServFail = RcodeServerFailure"

text \<open>
  The library's \<^verbatim>\<open>SetReply\<close> (defaults.go of github.com/miekg/dns), which main.go calls on
  line 38 and, through \<^verbatim>\<open>SetRcode\<close>, on lines 44 and 65 to 71:
  \<^verbatim>\<open>
  func (dns *Msg) SetReply(request *Msg) *Msg {
      dns.Id = request.Id
      dns.Response = true
      dns.Opcode = request.Opcode
      if dns.Opcode == OpcodeQuery {
          dns.RecursionDesired = request.RecursionDesired // Copy rd bit
          dns.CheckingDisabled = request.CheckingDisabled // Copy cd bit
      }
      dns.Rcode = RcodeSuccess
      if len(request.Question) > 0 {
          dns.Question = make([]Question, 1)
          dns.Question[0] = request.Question[0]
      }
      return dns
  }
  \<close>
  It writes the fields it names and leaves every other field of the receiver as it is;
  of the request's questions it takes the first one only.
\<close>

definition SetReply :: "'rr Msg \<Rightarrow> 'rr Msg \<Rightarrow> 'rr Msg" where
  "SetReply dns request =
     (let dns = dns\<lparr>Id_hdr := Id_hdr request\<rparr>;
          dns = dns\<lparr>Response := True\<rparr>;
          dns = dns\<lparr>Opcode := Opcode request\<rparr>;
          dns = (if Opcode dns = OpcodeQuery
                 then dns\<lparr>RecursionDesired := RecursionDesired request,
                          CheckingDisabled := CheckingDisabled request\<rparr>
                 else dns);
          dns = dns\<lparr>Rcode := RcodeSuccess\<rparr>
      in if length (Question request) > 0
         then dns\<lparr>Question := [Question request ! 0]\<rparr>
         else dns)"

text \<open>
  \<^verbatim>\<open>
  func (dns *Msg) SetRcode(request *Msg, rcode int) *Msg {
      dns.SetReply(request)
      dns.Rcode = rcode
      return dns
  }
  \<close>
\<close>

definition SetRcode :: "'rr Msg \<Rightarrow> 'rr Msg \<Rightarrow> int \<Rightarrow> 'rr Msg" where
  "SetRcode dns request rcode = (SetReply dns request)\<lparr>Rcode := rcode\<rparr>"

subsection \<open>The resolver's interface\<close>

text \<open>
  Modelled from the spec: the package \<^verbatim>\<open>dns-server/goresolver\<close> is not under src/. Its
  error values are the spec's fixed set of error kinds: NoResult, NoData, InvalidQuery,
  SecurityValidationFailed and Other. Go's \<^verbatim>\<open>error\<close> is one type for the resolver's and
  the transport's failures; \<open>ErrOther\<close> carries the message of any error that is none of
  the four named values.
\<close>

datatype error =
    ErrNoResult
  | ErrNoData
  | ErrInvalidQuery
  | ErrDNSSECValidationFailed
  | ErrOther string

text \<open>
  \<^verbatim>\<open>s.resolver.Query(qname, qtype)\<close> returns a pointer to a message (nil is \<open>None\<close>) and
  an error (nil is \<open>None\<close>). The handler takes the resolver as a parameter: nothing is
  assumed of what it returns. \<^verbatim>\<open>w.WriteMsg(reply)\<close> returns an error (nil is \<open>None\<close>); the
  writer is a parameter too.
\<close>

type_synonym 'rr resolver = "string \<Rightarrow> 16 word \<Rightarrow> 'rr Msg option \<times> error option"
type_synonym 'rr writer = "'rr Msg \<Rightarrow> error option"

subsection \<open>The handler\<close>

text \<open>
  What the handler does to the outside, in the order it does it: the calls of
  \<^verbatim>\<open>log.Printf\<close> (lines 54, 60 and 92), the call of the resolver (line 57) and the calls
  of \<^verbatim>\<open>w.WriteMsg\<close> (lines 45, 74 and 91).
\<close>

datatype 'rr event =
    LogRequest string "16 word"
  | ResolverQuery string "16 word"
  | LogResolveError string error
  | WriteMsg "'rr Msg"
  | LogWriteError error

text \<open>The \<^verbatim>\<open>switch err\<close> of lines 63 to 72.\<close>

fun rcode_of_error :: "error \<Rightarrow> int" where
  "rcode_of_error ErrNoResult = RcodeNameError"
| "rcode_of_error ErrNoData = RcodeNameError"
| "rcode_of_error ErrInvalidQuery = RcodeFormatError"
| "rcode_of_error ErrDNSSECValidationFailed = RcodeServFail"
| "rcode_of_error (ErrOther msg) = RcodeServerFailure"

text \<open>
  \<^verbatim>\<open>handleDNSRequest\<close>, lines 35 to 94. The result is the list of the events of one call.
  On lines 45 and 74 the value \<^verbatim>\<open>w.WriteMsg\<close> returns is dropped; on line 91 it is tested.
\<close>

definition handleDNSRequest :: "'rr resolver \<Rightarrow> 'rr writer \<Rightarrow> 'rr Msg \<Rightarrow> 'rr event list" where
  "handleDNSRequest query w r =
     (let reply = SetReply new_Msg r;
          reply = reply\<lparr>RecursionAvailable := True\<rparr>;
          reply = reply\<lparr>Compress := True\<rparr>
      in if length (Question r) = 0
         then (let reply = SetRcode reply r RcodeFormatError
               in [WriteMsg reply])
         else (let question = Question r ! 0;
                   qname = Name question;
                   qtype = Qtype question;
                   (response, err) = query qname qtype
               in [LogRequest qname qtype, ResolverQuery qname qtype] @
                  (case err of
                     Some e \<Rightarrow>
                       (let reply = SetRcode reply r (rcode_of_error e)
                        in [LogResolveError qname e, WriteMsg reply])
                   | None \<Rightarrow>
                       (let reply =
                              (case response of
                                 Some resp \<Rightarrow>
                                   reply\<lparr>Answer := Answer resp, Ns := Ns resp,
                                         Extra := Extra resp, Rcode := Rcode resp,
                                         AuthenticatedData := AuthenticatedData resp,
                                         CheckingDisabled := CheckingDisabled resp\<rparr>
                               | None \<Rightarrow> reply)
                        in WriteMsg reply #
                           (case w reply of
                              Some e \<Rightarrow> [LogWriteError e]
                            | None \<Rightarrow> [])))))"

text \<open>The messages a call wrote, the resolver calls it made and the write failures it logged.\<close>

fun written :: "'rr event list \<Rightarrow> 'rr Msg list" where
  "written [] = []"
| "written (WriteMsg m # es) = m # written es"
| "written (e # es) = written es"

fun resolver_calls :: "'rr event list \<Rightarrow> (string \<times> 16 word) list" where
  "resolver_calls [] = []"
| "resolver_calls (ResolverQuery n t # es) = (n, t) # resolver_calls es"
| "resolver_calls (e # es) = resolver_calls es"

fun logged_write_errors :: "'rr event list \<Rightarrow> error list" where
  "logged_write_errors [] = []"
| "logged_write_errors (LogWriteError e # es) = e # logged_write_errors es"
| "logged_write_errors (e # es) = logged_write_errors es"

text \<open>
  Two parts of the handler by name, for the statements below: the reply as lines 37 to
  40 build it, before the inbound message is looked at further, and the copy of the
  resolver's outcome of lines 79 to 88.
\<close>

definition first_reply :: "'rr Msg \<Rightarrow> 'rr Msg" where
  "first_reply r = (SetReply new_Msg r)\<lparr>RecursionAvailable := True, Compress := True\<rparr>"

definition copy_response :: "'rr Msg \<Rightarrow> 'rr Msg option \<Rightarrow> 'rr Msg" where
  "copy_response reply response =
     (case response of
        Some resp \<Rightarrow>
          reply\<lparr>Answer := Answer resp, Ns := Ns resp, Extra := Extra resp, Rcode := Rcode resp,
                AuthenticatedData := AuthenticatedData resp,
                CheckingDisabled := CheckingDisabled resp\<rparr>
      | None \<Rightarrow> reply)"


subsection \<open>The lifecycle of the listeners\<close>

text \<open>
  A \<^verbatim>\<open>dns.ServeMux\<close> is the list of the patterns it routes to the handler. Of the
  library's \<^verbatim>\<open>dns.Server\<close> the record has the four fields \<^verbatim>\<open>Start\<close> sets and one more,
  \<open>started\<close>, for the state the library keeps in the object (false in a server just
  built). \<^verbatim>\<open>Start\<close> builds two servers with \<^verbatim>\<open>&dns.Server{...}\<close>: two objects on the
  heap, each known by its address. The heap is the list of the server objects built so
  far, an address is an index of it, and a new object goes to the end.
\<close>

type_synonym ServeMux = "string list"

record Server =
  Addr :: string
  Net :: string
  Handler :: ServeMux
  UDPSize :: int
  started :: bool

type_synonym heap = "Server list"

text \<open>
  \<^verbatim>\<open>type DNSServer struct { resolver *goresolver.Resolver; server *dns.Server }\<close>; the nil
  pointer is \<open>None\<close>.
\<close>

record 'rr DNSServer =
  resolver :: "'rr resolver"
  server :: "nat option"

text \<open>
  What \<^verbatim>\<open>Start\<close> and \<^verbatim>\<open>Stop\<close> do to the outside: the log line of line 110, the two
  goroutines that run \<^verbatim>\<open>ListenAndServe\<close> on a server (lines 113 and 126), and the call
  of \<^verbatim>\<open>Shutdown\<close> on a server (line 138).
\<close>

datatype lifecycle_event =
    LogStart string
  | GoListenAndServe nat
  | CallShutdown nat

text \<open>
  \<^verbatim>\<open>Start\<close>, lines 97 to 133. The address of the UDP server is stored in \<^verbatim>\<open>s.server\<close>;
  the address of the TCP server is the local variable \<^verbatim>\<open>tcpServer\<close> and is stored
  nowhere. The goroutines run later and concurrently; the function only launches them.
\<close>

definition Start ::
  "'rr DNSServer \<Rightarrow> string \<Rightarrow> heap \<Rightarrow> 'rr DNSServer \<times> heap \<times> lifecycle_event list \<times> error option"
where
  "Start s addr h =
     (let mux = [''.''];
          udp = length h;
          h = h @ [\<lparr>Addr = addr, Net = ''udp'', Handler = mux, UDPSize = 65535,
                    started = False\<rparr>];
          s = s\<lparr>server := Some udp\<rparr>;
          tcpServer = length h;
          h = h @ [\<lparr>Addr = addr, Net = ''tcp'', Handler = mux, UDPSize = 0,
                    started = False\<rparr>]
      in (s, h, [LogStart addr, GoListenAndServe udp, GoListenAndServe tcpServer], None))"

text \<open>
  \<^verbatim>\<open>Stop\<close>, lines 136 to 141. The library's \<^verbatim>\<open>Shutdown\<close> is a method of one server: a
  parameter that maps the server to the server after the call and the error returned.
\<close>

definition Stop ::
  "(Server \<Rightarrow> Server \<times> error option) \<Rightarrow> 'rr DNSServer \<Rightarrow> heap
     \<Rightarrow> heap \<times> lifecycle_event list \<times> error option"
where
  "Stop shutdown s h =
     (case server s of
        Some p \<Rightarrow> (let (srv, err) = shutdown (h ! p) in (h[p := srv], [CallShutdown p], err))
      | None \<Rightarrow> (h, [], None))"

subsection \<open>Concrete inputs\<close>

text \<open>
  The inputs the statements below are run on: a query for the A record (type 1, class 1)
  of \<^verbatim>\<open>example.test.\<close>, the same query with a second question after the first, an
  outcome of the resolver with one answer record, a transport whose write fails, and a
  \<^verbatim>\<open>DNSServer\<close> before \<^verbatim>\<open>Start\<close>. Resource records are numbers here.
\<close>

definition example_question :: Question where
  "example_question = \<lparr>Name = ''example.test.'', Qtype = 1, Qclass = 1\<rparr>"

definition second_question :: Question where
  "second_question = \<lparr>Name = ''nope.test.'', Qtype = 28, Qclass = 1\<rparr>"

definition example_query :: "nat Msg" where
  "example_query = new_Msg\<lparr>Id_hdr := 4660, RecursionDesired := True,
     Question := [example_question]\<rparr>"

definition two_question_query :: "nat Msg" where
  "two_question_query = example_query\<lparr>Question := [example_question, second_question]\<rparr>"

definition example_outcome :: "nat Msg" where
  "example_outcome = new_Msg\<lparr>Answer := [7], Ns := [8, 9], AuthenticatedData := True,
     Rcode := RcodeSuccess\<rparr>"

definition failing_writer :: "nat writer" where
  "failing_writer m = Some (ErrOther ''write failed'')"

definition ok_writer :: "nat writer" where
  "ok_writer m = None"

definition new_DNSServer :: "nat DNSServer" where
  "new_DNSServer = \<lparr>resolver = (\<lambda>n t. (Some example_outcome, None)), server = None\<rparr>"

section \<open>Properties\<close>

subsection \<open>What the library's functions write\<close>

lemma SetReply_frame:
  "RecursionAvailable (SetReply d r) = RecursionAvailable d"
  "Compress (SetReply d r) = Compress d"
  "Answer (SetReply d r) = Answer d"
  "Ns (SetReply d r) = Ns d"
  "Extra (SetReply d r) = Extra d"
  "AuthenticatedData (SetReply d r) = AuthenticatedData d"
  by (simp_all add: SetReply_def Let_def)

lemma SetReply_sets:
  "Id_hdr (SetReply d r) = Id_hdr r"
  "Rcode (SetReply d r) = RcodeSuccess"
  "Question (SetReply d r) = (if Question r = [] then Question d else [Question r ! 0])"
  by (simp_all add: SetReply_def Let_def)

lemma SetRcode_fields:
  "RecursionAvailable (SetRcode d r c) = RecursionAvailable d"
  "Compress (SetRcode d r c) = Compress d"
  "Answer (SetRcode d r c) = Answer d"
  "Ns (SetRcode d r c) = Ns d"
  "Extra (SetRcode d r c) = Extra d"
  "Id_hdr (SetRcode d r c) = Id_hdr r"
  "Rcode (SetRcode d r c) = c"
  "Question (SetRcode d r c) = (if Question r = [] then Question d else [Question r ! 0])"
  by (simp_all add: SetRcode_def SetReply_frame SetReply_sets)

lemma first_reply_fields:
  "RecursionAvailable (first_reply r)"
  "Compress (first_reply r)"
  "Answer (first_reply r) = []"
  "Ns (first_reply r) = []"
  "Extra (first_reply r) = []"
  "Id_hdr (first_reply r) = Id_hdr r"
  "Rcode (first_reply r) = RcodeSuccess"
  "Question (first_reply r) = take 1 (Question r)"
  by (simp_all add: first_reply_def SetReply_frame SetReply_sets new_Msg_def
      take_Suc_conv_app_nth split: list.splits)

lemma copy_response_fields:
  "RecursionAvailable (copy_response d response) = RecursionAvailable d"
  "Compress (copy_response d response) = Compress d"
  "Id_hdr (copy_response d response) = Id_hdr d"
  "Question (copy_response d response) = Question d"
  by (simp_all add: copy_response_def split: option.splits)

text \<open>
  \<^verbatim>\<open>SetReply\<close> reads four header fields and the first question of the request, no more.
\<close>

lemma SetReply_agree:
  assumes "Id_hdr r1 = Id_hdr r2" "Opcode r1 = Opcode r2"
    "RecursionDesired r1 = RecursionDesired r2" "CheckingDisabled r1 = CheckingDisabled r2"
    "Question r1 \<noteq> []" "Question r2 \<noteq> []" "Question r1 ! 0 = Question r2 ! 0"
  shows "SetReply d r1 = SetReply d r2"
  using assms by (simp add: SetReply_def Let_def)

lemma truncate_fields:
  assumes "MsgHdr.truncate r1 = MsgHdr.truncate r2"
  shows "Id_hdr r1 = Id_hdr r2" "Opcode r1 = Opcode r2"
    "RecursionDesired r1 = RecursionDesired r2" "CheckingDisabled r1 = CheckingDisabled r2"
  using assms by (simp_all add: MsgHdr.truncate_def)

lemma first_reply_agree:
  assumes "MsgHdr.truncate r1 = MsgHdr.truncate r2"
    "Question r1 \<noteq> []" "Question r2 \<noteq> []" "Question r1 ! 0 = Question r2 ! 0"
  shows "first_reply r1 = first_reply r2" "SetRcode d r1 c = SetRcode d r2 c"
proof -
  have eq: "SetReply d' r1 = SetReply d' r2" for d' :: "'a Msg"
    by (rule SetReply_agree[OF truncate_fields[OF assms(1)] assms(2) assms(3) assms(4)])
  show "first_reply r1 = first_reply r2"
    by (simp only: first_reply_def eq)
  show "SetRcode d r1 c = SetRcode d r2 c"
    by (simp only: SetRcode_def eq)
qed

subsection \<open>The three paths of the handler\<close>

text \<open>No question (lines 43 to 47), an error of the resolver (lines 59 to 76), no error.\<close>

lemma handle_no_question:
  "Question r = [] \<Longrightarrow>
   handleDNSRequest query w r = [WriteMsg (SetRcode (first_reply r) r RcodeFormatError)]"
  by (simp add: handleDNSRequest_def first_reply_def Let_def)

lemma handle_error:
  "Question r \<noteq> [] \<Longrightarrow>
   query (Name (Question r ! 0)) (Qtype (Question r ! 0)) = (response, Some e) \<Longrightarrow>
   handleDNSRequest query w r =
     [LogRequest (Name (Question r ! 0)) (Qtype (Question r ! 0)),
      ResolverQuery (Name (Question r ! 0)) (Qtype (Question r ! 0)),
      LogResolveError (Name (Question r ! 0)) e,
      WriteMsg (SetRcode (first_reply r) r (rcode_of_error e))]"
  by (simp add: handleDNSRequest_def first_reply_def Let_def)

lemma handle_success:
  "Question r \<noteq> [] \<Longrightarrow>
   query (Name (Question r ! 0)) (Qtype (Question r ! 0)) = (response, None) \<Longrightarrow>
   handleDNSRequest query w r =
     [LogRequest (Name (Question r ! 0)) (Qtype (Question r ! 0)),
      ResolverQuery (Name (Question r ! 0)) (Qtype (Question r ! 0)),
      WriteMsg (copy_response (first_reply r) response)] @
     (case w (copy_response (first_reply r) response) of
        Some e \<Rightarrow> [LogWriteError e] | None \<Rightarrow> [])"
  by (simp add: handleDNSRequest_def first_reply_def copy_response_def Let_def
      split: option.splits)

text \<open>Every call writes one message, whatever the writer returns.\<close>

lemma written_handle:
  "written (handleDNSRequest query w r) =
     (if Question r = [] then [SetRcode (first_reply r) r RcodeFormatError]
      else case query (Name (Question r ! 0)) (Qtype (Question r ! 0)) of
             (response, Some e) \<Rightarrow> [SetRcode (first_reply r) r (rcode_of_error e)]
           | (response, None) \<Rightarrow> [copy_response (first_reply r) response])"
proof (cases "Question r = []")
  case True
  then show ?thesis by (simp add: handle_no_question)
next
  case False
  obtain response err
    where q: "query (Name (Question r ! 0)) (Qtype (Question r ! 0)) = (response, err)"
    by (cases "query (Name (Question r ! 0)) (Qtype (Question r ! 0))")
  show ?thesis
  proof (cases err)
    case None
    with False q show ?thesis by (simp add: handle_success split: option.splits)
  next
    case (Some e)
    with False q show ?thesis by (simp add: handle_error)
  qed
qed

text \<open>
  A failed write is logged on the last path only: the calls of lines 45 and 74 drop the
  error \<^verbatim>\<open>WriteMsg\<close> returns.
\<close>

lemma logged_write_errors_handle:
  "logged_write_errors (handleDNSRequest query w r) =
     (if Question r = [] then []
      else case query (Name (Question r ! 0)) (Qtype (Question r ! 0)) of
             (response, Some e) \<Rightarrow> []
           | (response, None) \<Rightarrow>
               (case w (copy_response (first_reply r) response) of
                  Some e \<Rightarrow> [e] | None \<Rightarrow> []))"
proof (cases "Question r = []")
  case True
  then show ?thesis by (simp add: handle_no_question)
next
  case False
  obtain response err
    where q: "query (Name (Question r ! 0)) (Qtype (Question r ! 0)) = (response, err)"
    by (cases "query (Name (Question r ! 0)) (Qtype (Question r ! 0))")
  show ?thesis
  proof (cases err)
    case None
    with False q show ?thesis by (simp add: handle_success split: option.splits)
  next
    case (Some e)
    with False q show ?thesis by (simp add: handle_error)
  qed
qed

subsection \<open>The reply on an error of the resolver\<close>

text \<open>
  Claim C1. The inbound message has at least one question and the resolver returns an
  error. Then the handler writes one reply; its response code is NameError for
  \<open>ErrNoResult\<close> and \<open>ErrNoData\<close>, FormatError for \<open>ErrInvalidQuery\<close>, ServerFailure for
  \<open>ErrDNSSECValidationFailed\<close> and ServerFailure for every other error; its answer,
  authority and additional sections are empty. What the resolver returns beside the
  error (\<open>response\<close>) plays no part.
\<close>

theorem error_reply_rcode_and_empty_sections:
  assumes "Question r \<noteq> []"
    and "query (Name (Question r ! 0)) (Qtype (Question r ! 0)) = (response, Some e)"
  shows "\<exists>reply. written (handleDNSRequest query w r) = [reply] \<and>
           (e = ErrNoResult \<or> e = ErrNoData \<longrightarrow> Rcode reply = RcodeNameError) \<and>
           (e = ErrInvalidQuery \<longrightarrow> Rcode reply = RcodeFormatError) \<and>
           (e = ErrDNSSECValidationFailed \<longrightarrow> Rcode reply = RcodeServerFailure) \<and>
           ((\<exists>msg. e = ErrOther msg) \<longrightarrow> Rcode reply = RcodeServerFailure) \<and>
           Answer reply = [] \<and> Ns reply = [] \<and> Extra reply = []"
  using assms
  by (auto simp: written_handle SetRcode_fields first_reply_fields RcodeServFail_def)

text \<open>The scenario of the spec: the resolver answers a query with \<open>ErrNoResult\<close>.\<close>

theorem error_reply_witness:
  "\<exists>reply. written (handleDNSRequest (\<lambda>n t. (None, Some ErrNoResult)) ok_writer example_query)
       = [reply] \<and>
     Rcode reply = RcodeNameError \<and> Answer reply = [] \<and> Ns reply = [] \<and> Extra reply = []"
  using error_reply_rcode_and_empty_sections
    [of example_query "\<lambda>n t. (None, Some ErrNoResult)" None ErrNoResult ok_writer]
  by (simp add: example_query_def)

subsection \<open>The reply to a message with no question\<close>

text \<open>
  Claim C2. The question section of the inbound message is empty. Then all the handler
  does is write one reply, with response code FormatError and empty answer, authority and
  additional sections: the resolver is not called, and another resolver and another
  writer in its place (\<open>query'\<close>, \<open>w'\<close>) change nothing.
\<close>

theorem no_question_format_error:
  assumes "Question r = []"
  shows "\<exists>reply. handleDNSRequest query w r = [WriteMsg reply] \<and>
           Rcode reply = RcodeFormatError \<and>
           Answer reply = [] \<and> Ns reply = [] \<and> Extra reply = [] \<and>
           resolver_calls (handleDNSRequest query w r) = [] \<and>
           handleDNSRequest query' w' r = handleDNSRequest query w r"
  using assms
  by (simp add: handle_no_question SetRcode_fields first_reply_fields)

theorem no_question_witness:
  "\<exists>reply. handleDNSRequest (\<lambda>n t. (Some example_outcome, None)) ok_writer (new_Msg :: nat Msg)
       = [WriteMsg reply] \<and>
     Rcode reply = RcodeFormatError \<and> Answer reply = [] \<and> Ns reply = [] \<and> Extra reply = [] \<and>
     resolver_calls
       (handleDNSRequest (\<lambda>n t. (Some example_outcome, None)) ok_writer (new_Msg :: nat Msg)) = [] \<and>
     handleDNSRequest (\<lambda>n t. (None, Some ErrNoData)) failing_writer (new_Msg :: nat Msg) =
       handleDNSRequest (\<lambda>n t. (Some example_outcome, None)) ok_writer new_Msg"
  using no_question_format_error
    [of "new_Msg :: nat Msg" "\<lambda>n t. (Some example_outcome, None)" ok_writer
        "\<lambda>n t. (None, Some ErrNoData)" failing_writer]
  by (simp add: new_Msg_def)

subsection \<open>The reply on success\<close>

text \<open>
  Claim C3. The inbound message has at least one question and the resolver returns an
  outcome (a message, not nil) and no error. Then the handler writes one reply, and the
  reply's answer, authority and additional sections, its response code and its
  authenticated-data and checking-disabled flags are those of the outcome.
\<close>

theorem success_reply_copies_outcome:
  assumes "Question r \<noteq> []"
    and "query (Name (Question r ! 0)) (Qtype (Question r ! 0)) = (Some resp, None)"
  shows "\<exists>reply. written (handleDNSRequest query w r) = [reply] \<and>
           Answer reply = Answer resp \<and> Ns reply = Ns resp \<and> Extra reply = Extra resp \<and>
           Rcode reply = Rcode resp \<and>
           AuthenticatedData reply = AuthenticatedData resp \<and>
           CheckingDisabled reply = CheckingDisabled resp"
  using assms
  by (simp add: written_handle copy_response_def)

theorem success_reply_witness:
  "\<exists>reply. written (handleDNSRequest (\<lambda>n t. (Some example_outcome, None)) ok_writer example_query)
       = [reply] \<and>
     Answer reply = [7] \<and> Ns reply = [8, 9] \<and> Extra reply = [] \<and> Rcode reply = RcodeSuccess \<and>
     AuthenticatedData reply \<and> \<not> CheckingDisabled reply"
  using success_reply_copies_outcome
    [of example_query "\<lambda>n t. (Some example_outcome, None)" example_outcome ok_writer]
  by (simp add: example_query_def example_outcome_def new_Msg_def)

subsection \<open>Recursion-available and compression\<close>

text \<open>
  Claim C4. For every inbound message, every resolver and every writer, the handler
  writes one reply, and that reply has the recursion-available bit set and compression
  enabled: with no question, on each error, on success, and on a nil outcome.
\<close>

theorem reply_recursion_available_and_compressed:
  "\<exists>reply. written (handleDNSRequest query w r) = [reply] \<and>
     RecursionAvailable reply \<and> Compress reply"
  by (simp add: written_handle SetRcode_fields copy_response_fields first_reply_fields
      split: prod.splits option.splits)

subsection \<open>Transaction identifier and question section of the reply\<close>

text \<open>
  Claim C5, as amended. For every inbound message the reply carries the transaction
  identifier of the inbound message, and its question section is the first question
  entry of the inbound message alone (\<open>take 1\<close>: no entry when the inbound message has
  none). So the reply's question section is that of the inbound message when the inbound
  message has at most one question, and is shorter otherwise: \<^verbatim>\<open>SetReply\<close> copies
  \<^verbatim>\<open>request.Question[0]\<close> into a slice of length one.
\<close>

theorem reply_id_and_first_question:
  "\<exists>reply. written (handleDNSRequest query w r) = [reply] \<and>
     Id_hdr reply = Id_hdr r \<and> Question reply = take 1 (Question r)"
  by (simp add: written_handle SetRcode_fields copy_response_fields first_reply_fields
      take_Suc_conv_app_nth split: prod.splits option.splits)

text \<open>
  Claim C5 as it is stated, that the reply has the question section of the inbound
  message, fails for a message with two questions: the reply has one.
\<close>

theorem reply_question_section_counterexample:
  "map Question
     (written (handleDNSRequest (\<lambda>n t. (Some example_outcome, None)) ok_writer two_question_query))
   \<noteq> [Question two_question_query]"
  by (simp add: written_handle copy_response_fields first_reply_fields two_question_query_def)

subsection \<open>Questions after the first\<close>

text \<open>
  Claim C6. Two inbound messages have a question each at least, the same header
  (transaction identifier and flags: \<open>MsgHdr.truncate\<close> is the header of a message) and
  the same first question; they may differ in every question after the first, and in
  their other sections. Then in both runs the resolver is called once, with the name and
  the type of the first question, and with the same resolver and writer the two runs are
  the same, event by event, the written reply included.
\<close>

theorem later_questions_do_not_influence_reply:
  assumes "Question r1 \<noteq> []" and "Question r2 \<noteq> []"
    and "Question r1 ! 0 = Question r2 ! 0"
    and "MsgHdr.truncate r1 = MsgHdr.truncate r2"
  shows "resolver_calls (handleDNSRequest query w r1) =
           [(Name (Question r1 ! 0), Qtype (Question r1 ! 0))] \<and>
         resolver_calls (handleDNSRequest query w r2) =
           [(Name (Question r1 ! 0), Qtype (Question r1 ! 0))] \<and>
         handleDNSRequest query w r1 = handleDNSRequest query w r2"
proof -
  let ?n = "Name (Question r1 ! 0)" and ?t = "Qtype (Question r1 ! 0)"
  obtain response err where q: "query ?n ?t = (response, err)"
    by (cases "query ?n ?t")
  have q2: "query (Name (Question r2 ! 0)) (Qtype (Question r2 ! 0)) = (response, err)"
    using q assms(3) by simp
  note agree = first_reply_agree[OF assms(4) assms(1) assms(2) assms(3)]
  show ?thesis
  proof (cases err)
    case None
    have "handleDNSRequest query w r1 = handleDNSRequest query w r2"
      using assms(1,2) q q2 None agree(1) assms(3)
      by (simp add: handle_success)
    moreover have "resolver_calls (handleDNSRequest query w r1) = [(?n, ?t)]"
      using assms(1) q None by (simp add: handle_success split: option.splits)
    ultimately show ?thesis by simp
  next
    case (Some e)
    have "handleDNSRequest query w r1 = handleDNSRequest query w r2"
      using assms(1,2) q q2 Some agree assms(3)
      by (simp add: handle_error)
    moreover have "resolver_calls (handleDNSRequest query w r1) = [(?n, ?t)]"
      using assms(1) q Some by (simp add: handle_error)
    ultimately show ?thesis by simp
  qed
qed

theorem later_questions_witness:
  "resolver_calls
     (handleDNSRequest (\<lambda>n t. (Some example_outcome, None)) failing_writer example_query) =
     [(''example.test.'', 1)] \<and>
   resolver_calls
     (handleDNSRequest (\<lambda>n t. (Some example_outcome, None)) failing_writer two_question_query) =
     [(''example.test.'', 1)] \<and>
   handleDNSRequest (\<lambda>n t. (Some example_outcome, None)) failing_writer example_query =
   handleDNSRequest (\<lambda>n t. (Some example_outcome, None)) failing_writer two_question_query"
  using later_questions_do_not_influence_reply
    [of example_query two_question_query "\<lambda>n t. (Some example_outcome, None)" failing_writer]
  by (simp add: example_query_def two_question_query_def example_question_def
      MsgHdr.truncate_def)

subsection \<open>Determinism\<close>

text \<open>
  Claim C7. The same inbound message is dispatched twice, and the resolver returns the
  same outcome for the first question both times (\<open>query1\<close> and \<open>query2\<close> may differ
  elsewhere). Then the two replies written are the same, whatever the two transports
  return; over the same transport the two runs are the same event by event.
\<close>

theorem handler_deterministic:
  assumes "query1 (Name (Question r ! 0)) (Qtype (Question r ! 0)) =
           query2 (Name (Question r ! 0)) (Qtype (Question r ! 0))"
  shows "written (handleDNSRequest query1 w1 r) = written (handleDNSRequest query2 w2 r) \<and>
         handleDNSRequest query1 w r = handleDNSRequest query2 w r"
proof -
  have "handleDNSRequest query1 w r = handleDNSRequest query2 w r"
    using assms by (simp add: handleDNSRequest_def Let_def)
  moreover have "written (handleDNSRequest query1 w1 r) = written (handleDNSRequest query2 w2 r)"
    using assms by (simp add: written_handle)
  ultimately show ?thesis by simp
qed

theorem handler_deterministic_witness:
  "written (handleDNSRequest (\<lambda>n t. (None, Some ErrNoData)) ok_writer example_query) =
   written (handleDNSRequest
      (\<lambda>n t. if n = ''example.test.'' then (None, Some ErrNoData) else (None, None))
      failing_writer example_query) \<and>
   handleDNSRequest (\<lambda>n t. (None, Some ErrNoData)) ok_writer example_query =
   handleDNSRequest
      (\<lambda>n t. if n = ''example.test.'' then (None, Some ErrNoData) else (None, None))
      ok_writer example_query"
proof -
  have same: "(None :: nat Msg option, Some ErrNoData) =
      (if Name (Question example_query ! 0) = ''example.test.''
       then (None, Some ErrNoData) else (None, None))"
    by (simp add: example_query_def example_question_def)
  show ?thesis
    by (rule handler_deterministic
        [of "\<lambda>n t. (None, Some ErrNoData)" example_query
            "\<lambda>n t. if n = ''example.test.'' then (None, Some ErrNoData) else (None, None)"
            ok_writer failing_writer ok_writer, OF same])
qed

subsection \<open>Stop\<close>

lemma Start_result:
  "Start s addr h0 =
     (s\<lparr>server := Some (length h0)\<rparr>,
      h0 @ [\<lparr>Addr = addr, Net = ''udp'', Handler = [''.''], UDPSize = 65535, started = False\<rparr>,
            \<lparr>Addr = addr, Net = ''tcp'', Handler = [''.''], UDPSize = 0, started = False\<rparr>],
      [LogStart addr, GoListenAndServe (length h0), GoListenAndServe (Suc (length h0))],
      None)"
  by (simp add: Start_def Let_def)

lemma Stop_Some:
  "server s = Some p \<Longrightarrow>
   Stop shutdown s h = (h[p := fst (shutdown (h ! p))], [CallShutdown p], snd (shutdown (h ! p)))"
  by (simp add: Stop_def split: prod.splits)

lemma Stop_None:
  "server s = None \<Longrightarrow> Stop shutdown s h = (h, [], None)"
  by (simp add: Stop_def)

text \<open>
  Claim C8. \<^verbatim>\<open>Start\<close> has built the UDP server at address \<open>length h0\<close> and the TCP
  server at the next address, has stored the first in \<^verbatim>\<open>s.server\<close> and has launched
  \<^verbatim>\<open>ListenAndServe\<close> on both. \<open>h\<close> is the heap when \<^verbatim>\<open>Stop\<close> is called: the same
  objects, in whatever state the goroutines have left them. Then \<^verbatim>\<open>Stop\<close> calls
  \<^verbatim>\<open>Shutdown\<close> once, on the UDP server, and returns what that call returns; the UDP
  server is the one object of the heap that changes, so the TCP server is as it was.
\<close>

theorem Stop_shuts_down_udp_only:
  assumes "Start s addr h0 = (s', h1, evs, e0)" and "length h = length h1"
  shows "server s' = Some (length h0) \<and>
         Net (h1 ! length h0) = ''udp'' \<and> Net (h1 ! Suc (length h0)) = ''tcp'' \<and>
         evs = [LogStart addr, GoListenAndServe (length h0), GoListenAndServe (Suc (length h0))] \<and>
         Stop shutdown s' h =
           (h[length h0 := fst (shutdown (h ! length h0))],
            [CallShutdown (length h0)],
            snd (shutdown (h ! length h0))) \<and>
         fst (Stop shutdown s' h) ! Suc (length h0) = h ! Suc (length h0) \<and>
         (\<forall>p. p \<noteq> length h0 \<longrightarrow> fst (Stop shutdown s' h) ! p = h ! p) \<and>
         length (fst (Stop shutdown s' h)) = length h"
proof -
  from assms(1) have s': "s' = s\<lparr>server := Some (length h0)\<rparr>"
    and h1: "h1 = h0 @
      [\<lparr>Addr = addr, Net = ''udp'', Handler = [''.''], UDPSize = 65535, started = False\<rparr>,
       \<lparr>Addr = addr, Net = ''tcp'', Handler = [''.''], UDPSize = 0, started = False\<rparr>]"
    and evs: "evs =
      [LogStart addr, GoListenAndServe (length h0), GoListenAndServe (Suc (length h0))]"
    by (simp_all only: Start_result prod.inject)
  have srv: "server s' = Some (length h0)" by (simp add: s')
  have n1: "Net (h1 ! length h0) = ''udp''"
    by (simp only: h1 nth_append_length Server.simps)
  have n2: "Net (h1 ! Suc (length h0)) = ''tcp''"
    by (simp add: h1 nth_append)
  note st = Stop_Some[OF srv, of shutdown h]
  have f: "fst (Stop shutdown s' h) ! p = h ! p" if "p \<noteq> length h0" for p
    using that by (simp only: st fst_conv) simp
  have l: "length (fst (Stop shutdown s' h)) = length h"
    by (simp only: st fst_conv length_list_update)
  have "fst (Stop shutdown s' h) ! Suc (length h0) = h ! Suc (length h0)"
    by (rule f) simp
  with srv n1 n2 evs st f l show ?thesis by blast
qed

text \<open>
  Both servers are running when \<^verbatim>\<open>Stop\<close> is called, and \<^verbatim>\<open>Shutdown\<close> stops its server
  and returns an error: the UDP server is stopped, the TCP server still runs, and the
  error is what \<^verbatim>\<open>Stop\<close> returns.
\<close>

theorem Stop_witness:
  "Stop (\<lambda>srv. (srv\<lparr>started := False\<rparr>, Some (ErrOther ''timeout'')))
     (new_DNSServer\<lparr>server := Some 0\<rparr>)
     [\<lparr>Addr = '':5053'', Net = ''udp'', Handler = [''.''], UDPSize = 65535, started = True\<rparr>,
      \<lparr>Addr = '':5053'', Net = ''tcp'', Handler = [''.''], UDPSize = 0, started = True\<rparr>] =
   ([\<lparr>Addr = '':5053'', Net = ''udp'', Handler = [''.''], UDPSize = 65535, started = False\<rparr>,
     \<lparr>Addr = '':5053'', Net = ''tcp'', Handler = [''.''], UDPSize = 0, started = True\<rparr>],
    [CallShutdown 0], Some (ErrOther ''timeout''))"
proof -
  have st: "Start new_DNSServer '':5053'' [] =
      (new_DNSServer\<lparr>server := Some 0\<rparr>,
       [\<lparr>Addr = '':5053'', Net = ''udp'', Handler = [''.''], UDPSize = 65535, started = False\<rparr>,
        \<lparr>Addr = '':5053'', Net = ''tcp'', Handler = [''.''], UDPSize = 0, started = False\<rparr>],
       [LogStart '':5053'', GoListenAndServe 0, GoListenAndServe 1], None)"
    by (simp add: Start_def Let_def)
  have len: "length
       [\<lparr>Addr = '':5053'', Net = ''udp'', Handler = [''.''], UDPSize = 65535, started = True\<rparr>,
        \<lparr>Addr = '':5053'', Net = ''tcp'', Handler = [''.''], UDPSize = 0, started = True\<rparr>] =
     length
       [\<lparr>Addr = '':5053'', Net = ''udp'', Handler = [''.''], UDPSize = 65535, started = False\<rparr>,
        \<lparr>Addr = '':5053'', Net = ''tcp'', Handler = [''.''], UDPSize = 0, started = False\<rparr>]"
    by simp
  show ?thesis
    using Stop_shuts_down_udp_only [OF st len,
        of "\<lambda>srv. (srv\<lparr>started := False\<rparr>, Some (ErrOther ''timeout''))"]
    by simp
qed

subsection \<open>A failed write\<close>

text \<open>
  Claim C9 at three inputs, each with a transport whose write fails. The handler
  writes once and returns in all three. For a message with no question and for an error
  of the resolver no write failure is logged; on success the failure is logged.
\<close>

theorem write_failure_logged_on_success_path_only:
  "handleDNSRequest (\<lambda>n t. (Some example_outcome, None)) failing_writer (new_Msg :: nat Msg) =
     [WriteMsg (SetRcode (first_reply new_Msg) new_Msg RcodeFormatError)] \<and>
   logged_write_errors
     (handleDNSRequest (\<lambda>n t. (Some example_outcome, None)) failing_writer (new_Msg :: nat Msg))
     = [] \<and>
   logged_write_errors
     (handleDNSRequest (\<lambda>n t. (None, Some ErrNoResult)) failing_writer example_query) = [] \<and>
   logged_write_errors
     (handleDNSRequest (\<lambda>n t. (Some example_outcome, None)) failing_writer example_query) =
     [ErrOther ''write failed'']"
  by (simp add: handleDNSRequest_def first_reply_def Let_def new_Msg_def example_query_def
      failing_writer_def)

subsection \<open>A nil outcome without an error\<close>

text \<open>
  Claim C10. The inbound message has at least one question and the resolver returns
  nil for the outcome and nil for the error. Then the handler writes one reply; its
  response code is the success code \<^verbatim>\<open>SetReply\<close> set, its answer, authority and
  additional sections are empty, and recursion-available is set. The model reads no field
  of an outcome in this case, as the code, whose copy is under \<^verbatim>\<open>if response != nil\<close>.
\<close>

theorem nil_outcome_reply:
  assumes "Question r \<noteq> []"
    and "query (Name (Question r ! 0)) (Qtype (Question r ! 0)) = (None, None)"
  shows "\<exists>reply. written (handleDNSRequest query w r) = [reply] \<and>
           Rcode reply = RcodeSuccess \<and>
           Answer reply = [] \<and> Ns reply = [] \<and> Extra reply = [] \<and>
           RecursionAvailable reply"
  using assms
  by (simp add: written_handle copy_response_def first_reply_fields)

theorem nil_outcome_witness:
  "\<exists>reply. written (handleDNSRequest (\<lambda>n t. (None, None)) ok_writer example_query) = [reply] \<and>
     Rcode reply = RcodeSuccess \<and> Answer reply = [] \<and> Ns reply = [] \<and> Extra reply = [] \<and>
     RecursionAvailable reply"
  using nil_outcome_reply [of example_query "\<lambda>n t. (None, None)" ok_writer]
  by (simp add: example_query_def)

end
